theory Spec2Isabelle
  imports Main
begin

section \<open>JavaScript values, errors and coercions\<close>

text \<open>
  The client in \<^verbatim>\<open>backend/src/llm/jiraClient.ts\<close> handles remote payloads of type
  \<^verbatim>\<open>any\<close>, so the model carries untyped JavaScript values. A string is the list of
  its UTF-8 bytes. A number is represented by its decimal rendering, the text that
  \<^verbatim>\<open>String(n)\<close> gives (\<^verbatim>\<open>0\<close> for both zeros): the code only tests numbers for
  truthiness and appends them to strings. An object is the list of its own
  properties, read with \<open>map_of\<close>.
\<close>

datatype jsval =
    Undefined
  | Null
  | Bool bool
  | Num string
  | Str string
  | Arr "jsval list"
  | Obj "(string \<times> jsval) list"

text \<open>A thrown value: an \<^verbatim>\<open>Error\<close> object with its \<^verbatim>\<open>name\<close> and \<^verbatim>\<open>message\<close>.\<close>

datatype jserror = JsError (err_name: string) (message: string)

definition Error :: "string \<Rightarrow> jserror" where
  "Error msg = JsError ''Error'' msg"

definition TypeError :: "string \<Rightarrow> jserror" where
  "TypeError msg = JsError ''TypeError'' msg"

text \<open>\<^verbatim>\<open>String(err)\<close>, that is \<^verbatim>\<open>Error.prototype.toString\<close>.\<close>

definition String_of_error :: "jserror \<Rightarrow> string" where
  "String_of_error e =
     (if err_name e = [] then message e
      else if message e = [] then err_name e
      else err_name e @ '': '' @ message e)"

text \<open>\<^verbatim>\<open>err?.message || String(err)\<close>: the empty message is falsy.\<close>

definition message_or_String :: "jserror \<Rightarrow> string" where
  "message_or_String e = (if message e \<noteq> [] then message e else String_of_error e)"

fun truthy :: "jsval \<Rightarrow> bool" where
  "truthy Undefined = False"
| "truthy Null = False"
| "truthy (Bool b) = b"
| "truthy (Num n) = (n \<noteq> ''0'' \<and> n \<noteq> ''NaN'')"
| "truthy (Str s) = (s \<noteq> [])"
| "truthy (Arr xs) = True"
| "truthy (Obj kvs) = True"

text \<open>
  Reading a property \<^verbatim>\<open>v.name\<close>. On \<^verbatim>\<open>null\<close> and \<^verbatim>\<open>undefined\<close> it throws a
  TypeError. The names this program reads (\<^verbatim>\<open>fields\<close>, \<^verbatim>\<open>description\<close>,
  \<^verbatim>\<open>content\<close>, \<^verbatim>\<open>type\<close>, \<^verbatim>\<open>text\<close>, \<^verbatim>\<open>issues\<close>, \<^verbatim>\<open>key\<close>, \<^verbatim>\<open>summary\<close>,
  \<^verbatim>\<open>customfield_10046\<close>) are carried by no primitive and by no array, so there the
  read gives \<^verbatim>\<open>undefined\<close>.
\<close>

fun get_prop :: "jsval \<Rightarrow> string \<Rightarrow> jserror + jsval" where
  "get_prop Undefined name =
     Inl (TypeError (''Cannot read properties of undefined (reading '' @ [CHR 0x27] @ name @ [CHR 0x27] @ '')''))"
| "get_prop Null name =
     Inl (TypeError (''Cannot read properties of null (reading '' @ [CHR 0x27] @ name @ [CHR 0x27] @ '')''))"
| "get_prop (Obj kvs) name = Inr (case map_of kvs name of None \<Rightarrow> Undefined | Some v \<Rightarrow> v)"
| "get_prop v name = Inr Undefined"

fun intercalate :: "string \<Rightarrow> string list \<Rightarrow> string" where
  "intercalate sep [] = []"
| "intercalate sep [x] = x"
| "intercalate sep (x # y # ys) = x @ sep @ intercalate sep (y # ys)"

text \<open>Sequencing of steps that may throw: the first thrown error ends the computation.\<close>

definition and_then :: "jserror + 'a \<Rightarrow> ('a \<Rightarrow> jserror + 'b) \<Rightarrow> jserror + 'b" where
  "and_then r f = (case r of Inl e \<Rightarrow> Inl e | Inr x \<Rightarrow> f x)"

fun sequence :: "(jserror + 'a) list \<Rightarrow> jserror + 'a list" where
  "sequence [] = Inr []"
| "sequence (r # rs) = and_then r (\<lambda>x. and_then (sequence rs) (\<lambda>xs. Inr (x # xs)))"

text \<open>
  The conversion of a value to a string, as \<^verbatim>\<open>text += v\<close> and a template literal
  \<^verbatim>\<open>`${v}`\<close> do it: a string as it is, an array joined with commas (\<^verbatim>\<open>null\<close> and
  \<^verbatim>\<open>undefined\<close> elements as the empty string), a plain object as
  \<^verbatim>\<open>[object Object]\<close>. A parsed object that has a property of its own named
  \<^verbatim>\<open>toString\<close> (never a function) cannot be converted: a TypeError. On parsed
  values the two conversions agree.
\<close>

fun js_toString :: "jsval \<Rightarrow> jserror + string" where
  "js_toString Undefined = Inr ''undefined''"
| "js_toString Null = Inr ''null''"
| "js_toString (Bool b) = Inr (if b then ''true'' else ''false'')"
| "js_toString (Num n) = Inr n"
| "js_toString (Str s) = Inr s"
| "js_toString (Arr xs) =
     and_then
       (sequence (map (\<lambda>x. case x of Undefined \<Rightarrow> Inr [] | Null \<Rightarrow> Inr []
                                | _ \<Rightarrow> js_toString x) xs))
       (\<lambda>parts. Inr (intercalate '','' parts))"
| "js_toString (Obj kvs) =
     (if map_of kvs ''toString'' \<noteq> None
      then Inl (TypeError ''Cannot convert object to primitive value'')
      else Inr ''[object Object]'')"

text \<open>
  The elements that \<^verbatim>\<open>for (const x of v)\<close> visits. An array gives its elements; a
  string gives one-character strings (none of which has a \<^verbatim>\<open>type\<close> or \<^verbatim>\<open>text\<close>
  property, so the model's splitting by byte reads the same as the engine's by code
  point); everything else is not iterable, and the TypeError names the expression
  \<open>expr\<close> that was iterated.
\<close>

fun js_iter :: "string \<Rightarrow> jsval \<Rightarrow> jserror + jsval list" where
  "js_iter expr (Arr xs) = Inr xs"
| "js_iter expr (Str s) = Inr (map (\<lambda>c. Str [c]) s)"
| "js_iter expr v = Inl (TypeError (expr @ '' is not iterable''))"

subsection \<open>Decimal rendering of a status code or a length\<close>

fun decimal :: "nat \<Rightarrow> string" where
  "decimal n =
     (if n < 10 then [char_of (48 + n)]
      else decimal (n div 10) @ [char_of (48 + n mod 10)])"

declare decimal.simps [simp del]

text \<open>
  The \<^verbatim>\<open>length\<close> of a string counts UTF-16 code units: one for every UTF-8 byte
  that is not a continuation byte, and one more for every lead byte of a four-byte
  character.
\<close>

definition utf16_length :: "string \<Rightarrow> nat" where
  "utf16_length s =
     length (filter (\<lambda>c. (of_char c :: nat) div 64 \<noteq> 2) s)
     + length (filter (\<lambda>c. (240 :: nat) \<le> of_char c) s)"

text \<open>
  \<^verbatim>\<open>v?.length\<close>: \<^verbatim>\<open>undefined\<close> on \<^verbatim>\<open>null\<close> and \<^verbatim>\<open>undefined\<close>, the number of
  elements of an array, the length of a string, the property of that name of an
  object, and \<^verbatim>\<open>undefined\<close> on a boolean or a number.
\<close>

fun optional_length :: "jsval \<Rightarrow> jsval" where
  "optional_length (Arr xs) = Num (decimal (length xs))"
| "optional_length (Str s) = Num (decimal (utf16_length s))"
| "optional_length (Obj kvs) = (case map_of kvs ''length'' of None \<Rightarrow> Undefined | Some v \<Rightarrow> v)"
| "optional_length v = Undefined"

subsection \<open>\<^verbatim>\<open>String.prototype.trim\<close>\<close>

text \<open>
  The white space and line terminators of ECMAScript, each as its UTF-8 bytes:
  U+0009 to U+000D, U+0020, U+00A0, U+1680, U+2000 to U+200A, U+2028, U+2029,
  U+202F, U+205F, U+3000 and U+FEFF.
\<close>

definition js_white_space :: "string list" where
  "js_white_space =
     [[CHR 0x09], [CHR 0x0A], [CHR 0x0B], [CHR 0x0C], [CHR 0x0D], [CHR 0x20],
      [CHR 0xC2, CHR 0xA0],
      [CHR 0xE1, CHR 0x9A, CHR 0x80],
      [CHR 0xE2, CHR 0x80, CHR 0x80], [CHR 0xE2, CHR 0x80, CHR 0x81],
      [CHR 0xE2, CHR 0x80, CHR 0x82], [CHR 0xE2, CHR 0x80, CHR 0x83],
      [CHR 0xE2, CHR 0x80, CHR 0x84], [CHR 0xE2, CHR 0x80, CHR 0x85],
      [CHR 0xE2, CHR 0x80, CHR 0x86], [CHR 0xE2, CHR 0x80, CHR 0x87],
      [CHR 0xE2, CHR 0x80, CHR 0x88], [CHR 0xE2, CHR 0x80, CHR 0x89],
      [CHR 0xE2, CHR 0x80, CHR 0x8A],
      [CHR 0xE2, CHR 0x80, CHR 0xA8], [CHR 0xE2, CHR 0x80, CHR 0xA9],
      [CHR 0xE2, CHR 0x80, CHR 0xAF],
      [CHR 0xE2, CHR 0x81, CHR 0x9F],
      [CHR 0xE3, CHR 0x80, CHR 0x80],
      [CHR 0xEF, CHR 0xBB, CHR 0xBF]]"

text \<open>The rest of \<open>s\<close> after one leading white-space character, if it starts with one.\<close>

fun drop_white :: "string list \<Rightarrow> string \<Rightarrow> string option" where
  "drop_white [] s = None"
| "drop_white (w # ws) s =
     (if w \<noteq> [] \<and> take (length w) s = w then Some (drop (length w) s) else drop_white ws s)"

text \<open>Dropping leading characters of the list \<open>ws\<close> for as long as there is one.\<close>

function strip_leading :: "string list \<Rightarrow> string \<Rightarrow> string" where
  "strip_leading ws s = (case drop_white ws s of None \<Rightarrow> s | Some t \<Rightarrow> strip_leading ws t)"
  by pat_completeness auto
termination
proof (relation "measure (\<lambda>(ws, s). length s)")
  show "wf (measure (\<lambda>(ws, s). length s))" by simp
next
  fix ws :: "string list" and s t :: string
  assume "drop_white ws s = Some t"
  then have "length t < length s"
  proof (induction ws)
    case Nil
    then show ?case by simp
  next
    case (Cons w ws)
    show ?case
    proof (cases "w \<noteq> [] \<and> take (length w) s = w")
      case True
      then have "s \<noteq> []" by auto
      moreover from True Cons.prems have "t = drop (length w) s" by simp
      ultimately show ?thesis using True by (cases w) auto
    next
      case False
      with Cons show ?thesis by auto
    qed
  qed
  then show "((ws, t), (ws, s)) \<in> measure (\<lambda>(ws, s). length s)" by simp
qed

declare strip_leading.simps [simp del]

definition trimStart :: "string \<Rightarrow> string" where
  "trimStart s = strip_leading js_white_space s"

text \<open>
  At the end of the string the same characters are dropped: the bytes of a UTF-8
  character read backwards are matched against the reversed string.
\<close>

definition trimEnd :: "string \<Rightarrow> string" where
  "trimEnd s = rev (strip_leading (map rev js_white_space) (rev s))"

definition trim :: "string \<Rightarrow> string" where
  "trim s = trimEnd (trimStart s)"

subsection \<open>\<^verbatim>\<open>Buffer.from(s).toString('base64')\<close>\<close>

definition b64 :: "nat \<Rightarrow> char" where
  "b64 i = (''ABCDEFGHIJKLMNOPQRSTUVWXYZabcdefghijklmnopqrstuvwxyz0123456789+/'') ! i"

fun base64_bytes :: "nat list \<Rightarrow> string" where
  "base64_bytes [] = []"
| "base64_bytes [a] = [b64 (a div 4), b64 ((a mod 4) * 16), CHR ''='', CHR ''='']"
| "base64_bytes [a, b] =
     [b64 (a div 4), b64 ((a mod 4) * 16 + b div 16), b64 ((b mod 16) * 4), CHR ''='']"
| "base64_bytes (a # b # c # rest) =
     [b64 (a div 4), b64 ((a mod 4) * 16 + b div 16), b64 ((b mod 16) * 4 + c div 64),
      b64 (c mod 64)] @ base64_bytes rest"

definition base64 :: "string \<Rightarrow> string" where
  "base64 s = base64_bytes (map of_char s)"

section \<open>The network and the session store\<close>

record request =
  req_method :: string
  req_url :: string
  req_headers :: "(string \<times> string) list"
  req_body :: "string option"

text \<open>
  A response of node-fetch: the status line, what \<^verbatim>\<open>text()\<close> resolves to or rejects
  with, and the same for \<^verbatim>\<open>json()\<close>.
\<close>

record response =
  resp_status :: nat
  resp_statusText :: string
  resp_text :: "jserror + string"
  resp_json :: "jserror + jsval"

text \<open>\<^verbatim>\<open>response.ok\<close>: the status is in the range 200 to 299.\<close>

definition resp_ok :: "response \<Rightarrow> bool" where
  "resp_ok r = (200 \<le> resp_status r \<and> resp_status r < 300)"

text \<open>
  What lies outside the repository is a parameter: how the remote answers a request,
  given the requests made before it (\<open>Inl\<close> is a rejected \<^verbatim>\<open>fetch\<close>, a transport
  error), and \<^verbatim>\<open>JSON.parse\<close>.
\<close>

record runtime =
  fetch_impl :: "request list \<Rightarrow> request \<Rightarrow> jserror + response"
  JSON_parse :: "string \<Rightarrow> jserror + jsval"

text \<open>The fields of \<^verbatim>\<open>class JiraClient\<close>.\<close>

record JiraClient =
  baseUrl :: string
  email :: string
  apiToken :: string
  isConnected :: bool

text \<open>
  The process state: the single \<^verbatim>\<open>jiraClientInstance\<close> and the requests sent so far,
  oldest first.
\<close>

record world =
  client :: JiraClient
  net_log :: "request list"

text \<open>The constructor: \<^verbatim>\<open>new JiraClient()\<close>.\<close>

definition new_JiraClient :: JiraClient where
  "new_JiraClient = \<lparr>baseUrl = [], email = [], apiToken = [], isConnected = False\<rparr>"

definition initial_world :: world where
  "initial_world = \<lparr>client = new_JiraClient, net_log = []\<rparr>"

definition fetch :: "runtime \<Rightarrow> request \<Rightarrow> world \<Rightarrow> (jserror + response) \<times> world" where
  "fetch rt req w = (fetch_impl rt (net_log w) req, w\<lparr>net_log := net_log w @ [req]\<rparr>)"

definition getAuthHeaders :: "JiraClient \<Rightarrow> (string \<times> string) list" where
  "getAuthHeaders c =
     [(''Authorization'', ''Basic '' @ base64 (email c @ '':'' @ apiToken c)),
      (''Accept'', ''application/json''),
      (''Content-Type'', ''application/json'')]"

text \<open>\<^verbatim>\<open>baseUrl.replace(/\/$/, '')\<close>: one slash at the very end is removed.\<close>

definition remove_trailing_slash :: "string \<Rightarrow> string" where
  "remove_trailing_slash s = (if s \<noteq> [] \<and> last s = CHR ''/'' then butlast s else s)"

definition set_isConnected :: "bool \<Rightarrow> world \<Rightarrow> world" where
  "set_isConnected b w = w\<lparr>client := (client w)\<lparr>isConnected := b\<rparr>\<rparr>"

text \<open>The request of the identity probe, built from the fields as they are stored.\<close>

definition probe_request :: "JiraClient \<Rightarrow> request" where
  "probe_request c =
     \<lparr>req_method = ''GET'', req_url = baseUrl c @ ''/rest/api/3/myself'',
      req_headers = getAuthHeaders c, req_body = None\<rparr>"

text \<open>
  \<^verbatim>\<open>connect\<close>: the three assignments, then the probe. With string arguments the only
  statement of the \<^verbatim>\<open>try\<close> block that can throw is the \<^verbatim>\<open>fetch\<close>; the \<^verbatim>\<open>catch\<close>
  block is the \<open>Inl\<close> branch. The result is a sum so that "does not throw" is a
  statement about the value.
\<close>

definition connect :: "runtime \<Rightarrow> string \<Rightarrow> string \<Rightarrow> string \<Rightarrow> world \<Rightarrow> (jserror + bool) \<times> world" where
  "connect rt url em tok w =
     (let w1 = w\<lparr>client := (client w)\<lparr>baseUrl := remove_trailing_slash url,
                                          email := em, apiToken := tok\<rparr>\<rparr>;
          (res, w2) = fetch rt (probe_request (client w1)) w1
      in case res of
           Inl error \<Rightarrow> (Inr False, set_isConnected False w2)
         | Inr response \<Rightarrow>
             if \<not> resp_ok response then (Inr False, set_isConnected False w2)
             else (Inr True, set_isConnected True w2))"

definition isConnectedToJira :: "JiraClient \<Rightarrow> bool" where
  "isConnectedToJira c = isConnected c"

text \<open>The object that \<^verbatim>\<open>getConnectionInfo\<close> returns has these two properties only.\<close>

record ConnectionInfo =
  info_baseUrl :: string
  info_email :: string

definition getConnectionInfo :: "JiraClient \<Rightarrow> ConnectionInfo option" where
  "getConnectionInfo c =
     (if \<not> isConnected c then None
      else Some \<lparr>info_baseUrl = baseUrl c, info_email = email c\<rparr>)"


section \<open>The version-fallback resolver\<close>

text \<open>\<^verbatim>\<open>JSON.stringify(body)\<close> of the search request, the same for both dialects.\<close>

definition stories_body :: string where
  \<open>stories_body =
     ''{"jql":"type = Story ORDER BY updated DESC","maxResults":50,"fields":["summary","description","issuetype"]}''\<close>

text \<open>
  \<^verbatim>\<open>getStoriesV3\<close> and \<^verbatim>\<open>getStoriesV2\<close> are the same text up to the digit of the
  dialect, which is the parameter \<open>ver\<close> here; \<open>stories_request\<close> is the request
  they send. The steps that can throw, in order:
  the \<^verbatim>\<open>fetch\<close>, \<^verbatim>\<open>response.text()\<close>, the check of \<^verbatim>\<open>response.ok\<close>,
  \<^verbatim>\<open>JSON.parse\<close>, and the log line
  \<^verbatim>\<open>`Fetched ${data.issues?.length || 0} stories ...`\<close>: its read of
  \<^verbatim>\<open>data.issues\<close> throws when the body is the JSON text \<^verbatim>\<open>null\<close>, and its
  conversion of the count to a string throws when the count is an object that
  cannot be converted. The result is \<^verbatim>\<open>data.issues || []\<close>.
\<close>

definition stories_request :: "string \<Rightarrow> JiraClient \<Rightarrow> request" where
  "stories_request ver c =
     (let endpoint = baseUrl c @ ''/rest/api/'' @ ver @ ''/search/jql''
      in \<lparr>req_method = ''POST'', req_url = endpoint, req_headers = getAuthHeaders c,
          req_body = Some stories_body\<rparr>)"

definition getStoriesV :: "string \<Rightarrow> runtime \<Rightarrow> world \<Rightarrow> (jserror + jsval) \<times> world" where
  "getStoriesV ver rt w =
     (let (res, w1) = fetch rt (stories_request ver (client w)) w
      in (and_then res (\<lambda>response.
          and_then (resp_text response) (\<lambda>respText.
            if \<not> resp_ok response then
              Inl (Error (''Failed to fetch stories (API v'' @ ver @ ''): ''
                          @ decimal (resp_status response) @ '' '' @ resp_statusText response
                          @ '' - '' @ respText))
            else
              and_then (JSON_parse rt respText) (\<lambda>data.
              and_then (get_prop data ''issues'') (\<lambda>issues.
              and_then (js_toString (if truthy (optional_length issues)
                                     then optional_length issues else Num ''0'')) (\<lambda>count.
                Inr (if truthy issues then issues else Arr [])))))), w1))"

definition getStoriesV3 :: "runtime \<Rightarrow> world \<Rightarrow> (jserror + jsval) \<times> world" where
  "getStoriesV3 = getStoriesV ''3''"

definition getStoriesV2 :: "runtime \<Rightarrow> world \<Rightarrow> (jserror + jsval) \<times> world" where
  "getStoriesV2 = getStoriesV ''2''"

definition not_connected :: jserror where
  "not_connected = Error ''Not connected to Jira. Please connect first.''"

definition getStories :: "runtime \<Rightarrow> world \<Rightarrow> (jserror + jsval) \<times> world" where
  "getStories rt w =
     (if \<not> isConnected (client w) then (Inl not_connected, w)
      else
        case getStoriesV3 rt w of
          (Inr stories, w1) \<Rightarrow> (Inr stories, w1)
        | (Inl v3Error, w1) \<Rightarrow>
            (case getStoriesV2 rt w1 of
               (Inr stories, w2) \<Rightarrow> (Inr stories, w2)
             | (Inl v2Error, w2) \<Rightarrow>
                 (let v3Msg = message_or_String v3Error;
                      v2Msg = message_or_String v2Error
                  in (Inl (Error (''Failed to fetch stories: v3: '' @ v3Msg @ ''; v2: '' @ v2Msg)),
                      w2))))"

section \<open>The rich-text extractor\<close>

text \<open>The inner loop of \<^verbatim>\<open>extractTextFromADF\<close>, over the inline elements of a paragraph.\<close>

fun inline_loop :: "jsval list \<Rightarrow> string \<Rightarrow> jserror + string" where
  "inline_loop [] text = Inr text"
| "inline_loop (inline # rest) text =
     and_then (get_prop inline ''text'') (\<lambda>t.
       if truthy t then and_then (js_toString t) (\<lambda>s. inline_loop rest (text @ s))
       else inline_loop rest text)"

text \<open>The outer loop, over the blocks of the document.\<close>

fun block_loop :: "jsval list \<Rightarrow> string \<Rightarrow> jserror + string" where
  "block_loop [] text = Inr text"
| "block_loop (block # rest) text =
     and_then (get_prop block ''type'') (\<lambda>ty.
       if ty = Str ''paragraph'' then
         and_then (get_prop block ''content'') (\<lambda>content.
           if truthy content then
             and_then (js_iter ''block.content'' content) (\<lambda>inlines.
             and_then (inline_loop inlines text) (\<lambda>text'.
               block_loop rest (text' @ [CHR 0x0A])))
           else block_loop rest text)
       else block_loop rest text)"

definition extractTextFromADF :: "jsval \<Rightarrow> jserror + string" where
  "extractTextFromADF adfContent =
     and_then (get_prop adfContent ''content'') (\<lambda>content.
     and_then (if truthy content
               then and_then (js_iter ''adfContent.content'' content) (\<lambda>blocks. block_loop blocks [])
               else Inr []) (\<lambda>text.
       Inr (trim text)))"

section \<open>Story details\<close>

fun typeof :: "jsval \<Rightarrow> string" where
  "typeof Undefined = ''undefined''"
| "typeof Null = ''object''"
| "typeof (Bool b) = ''boolean''"
| "typeof (Num n) = ''number''"
| "typeof (Str s) = ''string''"
| "typeof (Arr xs) = ''object''"
| "typeof (Obj kvs) = ''object''"

text \<open>
  The object that \<^verbatim>\<open>extractStoryDetails\<close> returns. Its properties hold JavaScript
  values: \<^verbatim>\<open>key\<close>, \<^verbatim>\<open>title\<close> and \<^verbatim>\<open>acceptanceCriteria\<close> are whatever the remote
  record has (or the empty string), whatever the interface declares.
\<close>

record JiraStoryDetails =
  key :: jsval
  title :: jsval
  description :: jsval
  acceptanceCriteria :: jsval

definition extractStoryDetails :: "jsval \<Rightarrow> jserror + JiraStoryDetails" where
  "extractStoryDetails data =
     and_then (get_prop data ''fields'') (\<lambda>f.
       let fields = (if truthy f then f else Obj []) in
       and_then (get_prop fields ''description'') (\<lambda>d.
       and_then
         (if truthy d \<and> typeof d = ''string'' then Inr d
          else if truthy d \<and> typeof d = ''object'' then
            and_then (get_prop d ''content'') (\<lambda>c.
              if truthy c then and_then (extractTextFromADF d) (\<lambda>text. Inr (Str text))
              else Inr (Str []))
          else Inr (Str [])) (\<lambda>description'.
       and_then (get_prop fields ''customfield_10046'') (\<lambda>cf.
         let acceptanceCriteria' = (if truthy cf then cf else Str []) in
         and_then (get_prop data ''key'') (\<lambda>k.
         and_then (get_prop fields ''summary'') (\<lambda>summary.
           Inr \<lparr>key = k, title = (if truthy summary then summary else Str []),
                description = description', acceptanceCriteria = acceptanceCriteria'\<rparr>))))))"

text \<open>
  \<^verbatim>\<open>getStoryDetailsV3\<close> and \<^verbatim>\<open>getStoryDetailsV2\<close>, again up to the digit. A response
  that is not ok has its text read for the message; otherwise \<^verbatim>\<open>response.json()\<close>
  goes to \<^verbatim>\<open>extractStoryDetails\<close>.
\<close>

definition details_request :: "string \<Rightarrow> string \<Rightarrow> JiraClient \<Rightarrow> request" where
  "details_request ver issueKey c =
     (let endpoint = baseUrl c @ ''/rest/api/'' @ ver @ ''/issue/'' @ issueKey;
          fullUrl = endpoint @ ''?fields=summary,description,customfield_10046''
      in \<lparr>req_method = ''GET'', req_url = fullUrl, req_headers = getAuthHeaders c,
          req_body = None\<rparr>)"

definition getStoryDetailsV ::
  "string \<Rightarrow> runtime \<Rightarrow> string \<Rightarrow> world \<Rightarrow> (jserror + JiraStoryDetails) \<times> world" where
  "getStoryDetailsV ver rt issueKey w =
     (let (res, w1) = fetch rt (details_request ver issueKey (client w)) w
      in (and_then res (\<lambda>response.
            if \<not> resp_ok response then
              and_then (resp_text response) (\<lambda>errorText.
                Inl (Error (''Failed to fetch story details (API v'' @ ver @ ''): ''
                            @ decimal (resp_status response) @ '' '' @ resp_statusText response
                            @ '' - '' @ errorText)))
            else
              and_then (resp_json response) (\<lambda>data. extractStoryDetails data)), w1))"

definition getStoryDetailsV3 ::
  "runtime \<Rightarrow> string \<Rightarrow> world \<Rightarrow> (jserror + JiraStoryDetails) \<times> world" where
  "getStoryDetailsV3 = getStoryDetailsV ''3''"

definition getStoryDetailsV2 ::
  "runtime \<Rightarrow> string \<Rightarrow> world \<Rightarrow> (jserror + JiraStoryDetails) \<times> world" where
  "getStoryDetailsV2 = getStoryDetailsV ''2''"

definition getStoryDetails ::
  "runtime \<Rightarrow> string \<Rightarrow> world \<Rightarrow> (jserror + JiraStoryDetails) \<times> world" where
  "getStoryDetails rt issueKey w =
     (if \<not> isConnected (client w) then (Inl not_connected, w)
      else
        case getStoryDetailsV3 rt issueKey w of
          (Inr details, w1) \<Rightarrow> (Inr details, w1)
        | (Inl v3Error, w1) \<Rightarrow>
            (case getStoryDetailsV2 rt issueKey w1 of
               (Inr details, w2) \<Rightarrow> (Inr details, w2)
             | (Inl v2Error, w2) \<Rightarrow>
                 (let v3Msg = message_or_String v3Error;
                      v2Msg = message_or_String v2Error
                  in (Inl (Error (''Failed to fetch story details: v3: '' @ v3Msg
                                  @ ''; v2: '' @ v2Msg)),
                      w2))))"

section \<open>Calls on the session store, step by step\<close>













section \<open>The extractor as the specification words it\<close>

text \<open>
  A document is \<^verbatim>\<open>{ content?: [block] }\<close>: an object whose \<^verbatim>\<open>content\<close>, when present,
  is an array of blocks; a block is an object whose \<^verbatim>\<open>content\<close>, when present, is an
  array of inline elements; an inline element is an object whose \<^verbatim>\<open>text\<close>, when
  present, is a string.
\<close>

fun adf_inline :: "jsval \<Rightarrow> bool" where
  "adf_inline (Obj kvs) =
     (case map_of kvs ''text'' of None \<Rightarrow> True | Some (Str s) \<Rightarrow> True | Some v \<Rightarrow> False)"
| "adf_inline v = False"

fun adf_block :: "jsval \<Rightarrow> bool" where
  "adf_block (Obj kvs) =
     (case map_of kvs ''content'' of
        None \<Rightarrow> True | Some (Arr inlines) \<Rightarrow> list_all adf_inline inlines | Some v \<Rightarrow> False)"
| "adf_block v = False"

fun adf_document :: "jsval \<Rightarrow> bool" where
  "adf_document (Obj kvs) =
     (case map_of kvs ''content'' of
        None \<Rightarrow> True | Some (Arr blocks) \<Rightarrow> list_all adf_block blocks | Some v \<Rightarrow> False)"
| "adf_document v = False"

text \<open>The \<^verbatim>\<open>content\<close> array of a document or of a block; none when it is missing.\<close>

fun content_array :: "jsval \<Rightarrow> jsval list option" where
  "content_array (Obj kvs) =
     (case map_of kvs ''content'' of Some (Arr xs) \<Rightarrow> Some xs | _ \<Rightarrow> None)"
| "content_array v = None"

text \<open>The text value of an inline element that has one; nothing otherwise.\<close>

fun inline_text :: "jsval \<Rightarrow> string" where
  "inline_text (Obj kvs) = (case map_of kvs ''text'' of Some (Str s) \<Rightarrow> s | _ \<Rightarrow> [])"
| "inline_text v = []"

fun is_paragraph :: "jsval \<Rightarrow> bool" where
  "is_paragraph (Obj kvs) = (map_of kvs ''type'' = Some (Str ''paragraph''))"
| "is_paragraph v = False"

text \<open>
  What one block contributes: a block of type \<^verbatim>\<open>paragraph\<close> with a content array
  gives the text values of its inline elements that have one and then a newline; a
  block of another type, and a paragraph without a content array, give nothing.
\<close>

definition block_text :: "jsval \<Rightarrow> string" where
  "block_text block =
     (case content_array block of
        Some inlines \<Rightarrow>
          if is_paragraph block then concat (map inline_text inlines) @ [CHR 0x0A] else []
      | None \<Rightarrow> [])"

text \<open>The contributions of the blocks in order, trimmed at both ends.\<close>

definition extractPlainText_spec :: "jsval \<Rightarrow> string" where
  "extractPlainText_spec document =
     trim (concat (map block_text (case content_array document of Some blocks \<Rightarrow> blocks | None \<Rightarrow> [])))"

section \<open>Example remotes and documents\<close>

definition text_response :: "nat \<Rightarrow> string \<Rightarrow> string \<Rightarrow> jserror + jsval \<Rightarrow> response" where
  "text_response status statusText body parsed =
     \<lparr>resp_status = status, resp_statusText = statusText, resp_text = Inr body,
      resp_json = parsed\<rparr>"

definition syntax_error :: jserror where
  "syntax_error = JsError ''SyntaxError'' ''Unexpected token in JSON''"

text \<open>A remote that cannot be reached: every \<^verbatim>\<open>fetch\<close> rejects.\<close>

definition unreachable_remote :: runtime where
  "unreachable_remote =
     \<lparr>fetch_impl = (\<lambda>log req. Inl (JsError ''FetchError'' ''request failed, reason: ECONNREFUSED'')),
      JSON_parse = (\<lambda>s. Inl syntax_error)\<rparr>"

definition para :: "jsval list \<Rightarrow> jsval" where
  "para inlines = Obj [(''type'', Str ''paragraph''), (''content'', Arr inlines)]"

definition text_node :: "string \<Rightarrow> jsval" where
  "text_node s = Obj [(''type'', Str ''text''), (''text'', Str s)]"

definition rich_text :: "jsval list \<Rightarrow> jsval" where
  "rich_text blocks = Obj [(''type'', Str ''doc''), (''version'', Num ''1''), (''content'', Arr blocks)]"

definition two_stories_text :: string where
  \<open>two_stories_text = ''{"issues":[{"key":"K-1","id":"10001"},{"key":"K-2","id":"10002"}]}''\<close>

definition two_stories :: jsval where
  "two_stories =
     Obj [(''issues'', Arr [Obj [(''key'', Str ''K-1''), (''id'', Str ''10001'')],
                            Obj [(''key'', Str ''K-2''), (''id'', Str ''10002'')]])]"

definition story_record :: jsval where
  "story_record =
     Obj [(''key'', Str ''K-1''),
          (''fields'',
           Obj [(''summary'', Str ''Login''),
                (''description'', Str '' As a user I log in ''),
                (''customfield_10046'', rich_text [para [text_node ''Given a user'']])])]"

definition rich_story_record :: jsval where
  "rich_story_record =
     Obj [(''key'', Str ''K-2''),
          (''fields'',
           Obj [(''summary'', Str ''Checkout''),
                (''description'', rich_text [para [text_node ''As a buyer I pay'']]),
                (''customfield_10046'', rich_text [para [text_node ''Given a cart'']])])]"

text \<open>
  A document with a paragraph that has inline content but no text between two
  paragraphs of text, and the same document without it.
\<close>

definition three_paragraphs :: jsval where
  "three_paragraphs =
     rich_text [para [text_node ''A''], para [Obj [(''type'', Str ''hardBreak'')]],
                para [text_node ''B'']]"

definition two_paragraphs :: jsval where
  "two_paragraphs = rich_text [para [text_node ''A''], para [text_node ''B'']]"

text \<open>
  A remote at \<^verbatim>\<open>https://x.example\<close> that accepts the probe, answers 404 on the v3
  paths and serves the v2 paths; at \<^verbatim>\<open>https://y.example\<close> it accepts the probe and
  fails on both dialects; every other request is refused with 401.
\<close>

definition example_remote :: runtime where
  "example_remote =
     \<lparr>fetch_impl = (\<lambda>log req.
        if req_url req = ''https://x.example/rest/api/3/myself''
           \<or> req_url req = ''https://y.example/rest/api/3/myself''
        then Inr (text_response 200 ''OK'' ''{}'' (Inr (Obj [])))
        else if req_url req = ''https://x.example/rest/api/2/search/jql''
        then Inr (text_response 200 ''OK'' two_stories_text (Inr two_stories))
        else if req_url req
                = ''https://x.example/rest/api/2/issue/K-1?fields=summary,description,customfield_10046''
        then Inr (text_response 200 ''OK'' [] (Inr story_record))
        else if req_url req
                = ''https://x.example/rest/api/2/issue/K-2?fields=summary,description,customfield_10046''
        then Inr (text_response 200 ''OK'' [] (Inr rich_story_record))
        else if take 29 (req_url req) = ''https://x.example/rest/api/3/''
                \<or> take 29 (req_url req) = ''https://y.example/rest/api/3/''
        then Inr (text_response 404 ''Not Found'' ''no such dialect'' (Inl syntax_error))
        else if take 29 (req_url req) = ''https://y.example/rest/api/2/''
        then Inr (text_response 500 ''Internal Server Error'' ''boom'' (Inl syntax_error))
        else Inr (text_response 401 ''Unauthorized'' ''denied'' (Inl syntax_error))),
      JSON_parse = (\<lambda>s. if s = two_stories_text then Inr two_stories
                          else if s = ''{}'' then Inr (Obj [])
                          else Inl syntax_error)\<rparr>"

text \<open>The session after a successful \<^verbatim>\<open>connect\<close> to either host of the example remote.\<close>

definition connected_x :: world where
  "connected_x = snd (connect example_remote ''https://x.example/'' ''a@x.example'' ''s3cret'' initial_world)"

definition connected_y :: world where
  "connected_y = snd (connect example_remote ''https://y.example'' ''a@y.example'' ''t0ken'' initial_world)"



section \<open>Properties\<close>

subsection \<open>Helper facts\<close>

lemma connect_result:
  "connect rt url em tok w =
     (let c1 = (client w)\<lparr>baseUrl := remove_trailing_slash url, email := em, apiToken := tok\<rparr>;
          ok = (case fetch_impl rt (net_log w) (probe_request c1) of
                  Inl e \<Rightarrow> False | Inr response \<Rightarrow> resp_ok response)
      in (Inr ok, \<lparr>client = c1\<lparr>isConnected := ok\<rparr>, net_log = net_log w @ [probe_request c1]\<rparr>))"
  by (simp add: connect_def fetch_def set_isConnected_def Let_def split: sum.splits)





lemma message_or_String_extends: "\<exists>q. message_or_String e = message e @ q"
  by (simp add: message_or_String_def)

lemma getStories_connected:
  "isConnected (client w) \<Longrightarrow>
   getStories rt w =
     (case getStoriesV3 rt w of
        (Inr stories, w1) \<Rightarrow> (Inr stories, w1)
      | (Inl v3Error, w1) \<Rightarrow>
          (case getStoriesV2 rt w1 of
             (Inr stories, w2) \<Rightarrow> (Inr stories, w2)
           | (Inl v2Error, w2) \<Rightarrow>
               (Inl (Error (''Failed to fetch stories: v3: '' @ message_or_String v3Error
                            @ ''; v2: '' @ message_or_String v2Error)), w2)))"
  by (simp add: getStories_def Let_def split: prod.splits sum.splits)

lemma getStoryDetails_connected:
  "isConnected (client w) \<Longrightarrow>
   getStoryDetails rt issueKey w =
     (case getStoryDetailsV3 rt issueKey w of
        (Inr details, w1) \<Rightarrow> (Inr details, w1)
      | (Inl v3Error, w1) \<Rightarrow>
          (case getStoryDetailsV2 rt issueKey w1 of
             (Inr details, w2) \<Rightarrow> (Inr details, w2)
           | (Inl v2Error, w2) \<Rightarrow>
               (Inl (Error (''Failed to fetch story details: v3: '' @ message_or_String v3Error
                            @ ''; v2: '' @ message_or_String v2Error)), w2)))"
  by (simp add: getStoryDetails_def Let_def split: prod.splits sum.splits)

lemma trim_empty: "trim [] = []"
  by code_simp

lemma inline_loop_spec:
  "list_all adf_inline inlines \<Longrightarrow>
   inline_loop inlines acc = Inr (acc @ concat (map inline_text inlines))"
proof (induction inlines arbitrary: acc)
  case Nil
  then show ?case by simp
next
  case (Cons i inlines)
  from Cons.prems have i: "adf_inline i" and rest: "list_all adf_inline inlines"
    by simp_all
  from i obtain kvs where kvs: "i = Obj kvs" by (cases i) simp_all
  define t where "t = (case map_of kvs ''text'' of None \<Rightarrow> Undefined | Some v \<Rightarrow> v)"
  have g: "get_prop i ''text'' = Inr t"
    by (simp add: kvs t_def)
  have t: "(if truthy t then and_then (js_toString t) (\<lambda>s. f (a @ s)) else f a)
           = f (a @ inline_text i)" for a and f :: "string \<Rightarrow> jserror + string"
    using i kvs by (auto simp: t_def and_then_def split: option.splits jsval.splits)
  show ?case
    by (simp add: and_then_def g t Cons.IH [OF rest])
qed

lemma block_loop_spec:
  "list_all adf_block blocks \<Longrightarrow>
   block_loop blocks acc = Inr (acc @ concat (map block_text blocks))"
proof (induction blocks arbitrary: acc)
  case Nil
  then show ?case by simp
next
  case (Cons b blocks)
  from Cons.prems have b: "adf_block b" and rest: "list_all adf_block blocks"
    by simp_all
  from b obtain kvs where kvs: "b = Obj kvs" by (cases b) simp_all
  show ?case
  proof (cases "content_array b")
    case None
    with b kvs have "map_of kvs ''content'' = None"
      by (auto split: option.splits jsval.splits)
    with kvs None show ?thesis
      by (simp add: and_then_def block_text_def Cons.IH [OF rest])
  next
    case (Some inlines)
    with b kvs have c: "map_of kvs ''content'' = Some (Arr inlines)"
      and wf: "list_all adf_inline inlines"
      by (auto split: option.splits jsval.splits)
    show ?thesis
    proof (cases "is_paragraph b")
      case True
      with kvs c Some wf show ?thesis
        by (simp add: and_then_def block_text_def inline_loop_spec Cons.IH [OF rest])
    next
      case False
      with kvs c Some show ?thesis
        by (auto simp: and_then_def block_text_def Cons.IH [OF rest] split: option.splits)
    qed
  qed
qed

lemma extractStoryDetails_string:
  assumes "get_prop data ''fields'' = Inr flds"
    and "get_prop flds ''description'' = Inr (Str s)"
  shows "\<exists>details. extractStoryDetails data = Inr details \<and> description details = Str s"
proof -
  from assms(2) obtain fkvs where f: "flds = Obj fkvs"
    by (cases flds) simp_all
  from assms(1) f obtain kvs where d: "data = Obj kvs"
    by (cases data) simp_all
  from assms d f show ?thesis
    by (simp add: extractStoryDetails_def and_then_def Let_def)
qed

lemma getStoryDetailsV_ok:
  assumes "fetch_impl rt (net_log w) (details_request ver issueKey (client w)) = Inr response"
    and "resp_ok response" and "resp_json response = Inr data"
  shows "fst (getStoryDetailsV ver rt issueKey w) = extractStoryDetails data"
  using assms by (simp add: getStoryDetailsV_def fetch_def and_then_def Let_def)

lemma getStoriesV_world:
  "snd (getStoriesV ver rt w) = w\<lparr>net_log := net_log w @ [stories_request ver (client w)]\<rparr>"
  by (simp add: getStoriesV_def fetch_def Let_def)

lemma getStoriesV_issues:
  assumes "fetch_impl rt (net_log w) (stories_request ver (client w)) = Inr response"
    and "resp_ok response" and "resp_text response = Inr respText"
    and "JSON_parse rt respText = Inr (Obj kvs)"
    and "map_of kvs ''issues'' = None \<or> (\<exists>xs. map_of kvs ''issues'' = Some (Arr xs))"
  shows "fst (getStoriesV ver rt w)
         = Inr (case map_of kvs ''issues'' of None \<Rightarrow> Arr [] | Some issues \<Rightarrow> issues)"
  using assms
  by (auto simp: getStoriesV_def fetch_def and_then_def Let_def)

lemma getStoriesV_fails:
  assumes "case fetch_impl rt (net_log w) (stories_request ver (client w)) of
             Inl e \<Rightarrow> True | Inr response \<Rightarrow> \<not> resp_ok response"
  shows "\<exists>e. fst (getStoriesV ver rt w) = Inl e"
  using assms
  by (auto simp: getStoriesV_def fetch_def and_then_def Let_def split: sum.splits)

lemma getStoriesV_returns:
  assumes "fst (getStoriesV ver rt w) = Inr stories"
  shows "\<exists>response respText data issues.
           fetch_impl rt (net_log w) (stories_request ver (client w)) = Inr response
           \<and> resp_ok response \<and> resp_text response = Inr respText
           \<and> JSON_parse rt respText = Inr data
           \<and> get_prop data ''issues'' = Inr issues
           \<and> stories = (if truthy issues then issues else Arr [])"
  using assms
  by (auto simp: getStoriesV_def fetch_def and_then_def Let_def split: sum.splits if_splits)

lemma log_line_conversion_throws:
  "js_toString (optional_length (Obj [(''length'', Obj [(''toString'', Num ''1'')])]))
   = Inl (TypeError ''Cannot convert object to primitive value'')"
  by simp

















subsection \<open>Operations without a connection\<close>

text \<open>
  Claim C1. While the connected flag is false, \<^verbatim>\<open>getStories()\<close> and
  \<^verbatim>\<open>getStoryDetails(key)\<close> throw the "not connected" error at once and leave the
  state as it was: in particular the list of requests sent is unchanged, so no
  request goes out to either dialect.
\<close>

theorem not_connected_no_network:
  assumes "\<not> isConnected (client w)"
  shows "getStories rt w = (Inl (Error ''Not connected to Jira. Please connect first.''), w)
       \<and> getStoryDetails rt issueKey w
           = (Inl (Error ''Not connected to Jira. Please connect first.''), w)
       \<and> net_log (snd (getStories rt w)) = net_log w
       \<and> net_log (snd (getStoryDetails rt issueKey w)) = net_log w"
  using assms by (simp add: getStories_def getStoryDetails_def not_connected_def)

theorem not_connected_no_network_witness:
  "\<not> isConnected (client initial_world)
   \<and> getStories unreachable_remote initial_world
       = (Inl (Error ''Not connected to Jira. Please connect first.''), initial_world)
   \<and> getStoryDetails unreachable_remote ''PROJ-1'' initial_world
       = (Inl (Error ''Not connected to Jira. Please connect first.''), initial_world)
   \<and> net_log (snd (getStories unreachable_remote initial_world)) = []"
proof -
  have h: "\<not> isConnected (client initial_world)"
    by (simp add: initial_world_def new_JiraClient_def)
  have l: "net_log initial_world = []"
    by (simp add: initial_world_def)
  from not_connected_no_network [OF h, of unreachable_remote "''PROJ-1''"] h l
  show ?thesis by simp
qed

subsection \<open>The fallback from v3 to v2\<close>

text \<open>
  Claim C2. With a connection, when the v3 attempt and then the v2 attempt both
  throw, \<^verbatim>\<open>getStories()\<close> and \<^verbatim>\<open>getStoryDetails(key)\<close> throw one error whose message
  is the fixed head, then \<^verbatim>\<open>v3: \<close> and the v3 message, then \<^verbatim>\<open>; v2: \<close> and the v2
  message. Conversely every error these operations throw with a connection is of
  that form, with both attempts made and failed: the message holds the v3 message
  after the tag \<^verbatim>\<open>v3: \<close> and, later, the v2 message after the tag \<^verbatim>\<open>v2: \<close>, so a
  v3 failure never comes out alone.
\<close>

theorem both_dialects_fail_aggregated:
  assumes "isConnected (client w)"
  shows "(getStoriesV3 rt w = (Inl e3, w1) \<and> getStoriesV2 rt w1 = (Inl e2, w2) \<longrightarrow>
            getStories rt w
              = (Inl (Error (''Failed to fetch stories: v3: '' @ message_or_String e3
                             @ ''; v2: '' @ message_or_String e2)), w2))
       \<and> (getStories rt w = (Inl e, w') \<longrightarrow>
            (\<exists>v3Error v2Error w3 p q r.
               getStoriesV3 rt w = (Inl v3Error, w3) \<and> getStoriesV2 rt w3 = (Inl v2Error, w')
               \<and> message e = p @ ''v3: '' @ message v3Error @ q @ ''v2: '' @ message v2Error @ r))
       \<and> (getStoryDetailsV3 rt issueKey w = (Inl e3, w1)
            \<and> getStoryDetailsV2 rt issueKey w1 = (Inl e2, w2) \<longrightarrow>
            getStoryDetails rt issueKey w
              = (Inl (Error (''Failed to fetch story details: v3: '' @ message_or_String e3
                             @ ''; v2: '' @ message_or_String e2)), w2))
       \<and> (getStoryDetails rt issueKey w = (Inl e, w') \<longrightarrow>
            (\<exists>v3Error v2Error w3 p q r.
               getStoryDetailsV3 rt issueKey w = (Inl v3Error, w3)
               \<and> getStoryDetailsV2 rt issueKey w3 = (Inl v2Error, w')
               \<and> message e = p @ ''v3: '' @ message v3Error @ q @ ''v2: '' @ message v2Error @ r))"
proof -
  have agg: "\<exists>p q r. message (Error (head @ ''v3: '' @ message_or_String a @ ''; v2: ''
                                       @ message_or_String b))
                     = p @ ''v3: '' @ message a @ q @ ''v2: '' @ message b @ r"
    for head a b
  proof -
    obtain qa where qa: "message_or_String a = message a @ qa"
      using message_or_String_extends by blast
    obtain qb where qb: "message_or_String b = message b @ qb"
      using message_or_String_extends by blast
    have "message (Error (head @ ''v3: '' @ message_or_String a @ ''; v2: ''
                          @ message_or_String b))
          = head @ ''v3: '' @ message a @ (qa @ ''; '') @ ''v2: '' @ message b @ qb"
      by (simp add: Error_def qa qb)
    then show ?thesis by blast
  qed
  have s1: "getStoriesV3 rt w = (Inl e3, w1) \<and> getStoriesV2 rt w1 = (Inl e2, w2) \<longrightarrow>
            getStories rt w
              = (Inl (Error (''Failed to fetch stories: v3: '' @ message_or_String e3
                             @ ''; v2: '' @ message_or_String e2)), w2)"
    using assms by (simp add: getStories_connected)
  have s2: "getStories rt w = (Inl e, w') \<longrightarrow>
            (\<exists>v3Error v2Error w3 p q r.
               getStoriesV3 rt w = (Inl v3Error, w3) \<and> getStoriesV2 rt w3 = (Inl v2Error, w')
               \<and> message e = p @ ''v3: '' @ message v3Error @ q @ ''v2: '' @ message v2Error @ r)"
  proof
    assume g: "getStories rt w = (Inl e, w')"
    obtain r3 w3 where v3: "getStoriesV3 rt w = (r3, w3)" by (cases "getStoriesV3 rt w")
    obtain r2 w4 where v2: "getStoriesV2 rt w3 = (r2, w4)" by (cases "getStoriesV2 rt w3")
    from g v3 v2 assms obtain a b where
      ab: "r3 = Inl a" "r2 = Inl b" "w4 = w'"
          "e = Error ((''Failed to fetch stories: '') @ ''v3: '' @ message_or_String a @ ''; v2: ''
                      @ message_or_String b)"
      by (cases r3; cases r2) (auto simp: getStories_connected)
    from agg [of "''Failed to fetch stories: ''" a b] ab v3 v2
    show "\<exists>v3Error v2Error w3 p q r.
               getStoriesV3 rt w = (Inl v3Error, w3) \<and> getStoriesV2 rt w3 = (Inl v2Error, w')
               \<and> message e = p @ ''v3: '' @ message v3Error @ q @ ''v2: '' @ message v2Error @ r"
      by blast
  qed
  have d1: "getStoryDetailsV3 rt issueKey w = (Inl e3, w1)
            \<and> getStoryDetailsV2 rt issueKey w1 = (Inl e2, w2) \<longrightarrow>
            getStoryDetails rt issueKey w
              = (Inl (Error (''Failed to fetch story details: v3: '' @ message_or_String e3
                             @ ''; v2: '' @ message_or_String e2)), w2)"
    using assms by (simp add: getStoryDetails_connected)
  have d2: "getStoryDetails rt issueKey w = (Inl e, w') \<longrightarrow>
            (\<exists>v3Error v2Error w3 p q r.
               getStoryDetailsV3 rt issueKey w = (Inl v3Error, w3)
               \<and> getStoryDetailsV2 rt issueKey w3 = (Inl v2Error, w')
               \<and> message e = p @ ''v3: '' @ message v3Error @ q @ ''v2: '' @ message v2Error @ r)"
  proof
    assume g: "getStoryDetails rt issueKey w = (Inl e, w')"
    obtain r3 w3 where v3: "getStoryDetailsV3 rt issueKey w = (r3, w3)"
      by (cases "getStoryDetailsV3 rt issueKey w")
    obtain r2 w4 where v2: "getStoryDetailsV2 rt issueKey w3 = (r2, w4)"
      by (cases "getStoryDetailsV2 rt issueKey w3")
    from g v3 v2 assms obtain a b where
      ab: "r3 = Inl a" "r2 = Inl b" "w4 = w'"
          "e = Error ((''Failed to fetch story details: '') @ ''v3: '' @ message_or_String a
                      @ ''; v2: '' @ message_or_String b)"
      by (cases r3; cases r2) (auto simp: getStoryDetails_connected)
    from agg [of "''Failed to fetch story details: ''" a b] ab v3 v2
    show "\<exists>v3Error v2Error w3 p q r.
               getStoryDetailsV3 rt issueKey w = (Inl v3Error, w3)
               \<and> getStoryDetailsV2 rt issueKey w3 = (Inl v2Error, w')
               \<and> message e = p @ ''v3: '' @ message v3Error @ q @ ''v2: '' @ message v2Error @ r"
      by blast
  qed
  from s1 s2 d1 d2 show ?thesis by blast
qed

theorem both_dialects_fail_aggregated_witness:
  "isConnected (client connected_y)
   \<and> fst (getStoriesV3 example_remote connected_y)
       = Inl (Error ''Failed to fetch stories (API v3): 404 Not Found - no such dialect'')
   \<and> fst (getStories example_remote connected_y)
       = Inl (Error (''Failed to fetch stories: v3: Failed to fetch stories (API v3): 404 Not Found - no such dialect''
                     @ ''; v2: Failed to fetch stories (API v2): 500 Internal Server Error - boom''))"
proof -
  let ?w1 = "snd (getStoriesV3 example_remote connected_y)"
  let ?w2 = "snd (getStoriesV2 example_remote ?w1)"
  have c: "isConnected (client connected_y)" by code_simp
  have f3: "fst (getStoriesV3 example_remote connected_y)
            = Inl (Error ''Failed to fetch stories (API v3): 404 Not Found - no such dialect'')"
    by code_simp
  have f2: "fst (getStoriesV2 example_remote ?w1)
            = Inl (Error ''Failed to fetch stories (API v2): 500 Internal Server Error - boom'')"
    by code_simp
  have v3: "getStoriesV3 example_remote connected_y
            = (Inl (Error ''Failed to fetch stories (API v3): 404 Not Found - no such dialect''), ?w1)"
    using f3 by (simp add: prod_eq_iff)
  have v2: "getStoriesV2 example_remote ?w1
            = (Inl (Error ''Failed to fetch stories (API v2): 500 Internal Server Error - boom''), ?w2)"
    using f2 by (simp add: prod_eq_iff)
  from both_dialects_fail_aggregated [OF c, of example_remote _ ?w1 _ ?w2] v3 v2
  have "getStories example_remote connected_y
        = (Inl (Error (''Failed to fetch stories: v3: ''
                       @ message_or_String (Error ''Failed to fetch stories (API v3): 404 Not Found - no such dialect'')
                       @ ''; v2: ''
                       @ message_or_String (Error ''Failed to fetch stories (API v2): 500 Internal Server Error - boom''))), ?w2)"
    by blast
  then have "fst (getStories example_remote connected_y)
       = Inl (Error (''Failed to fetch stories: v3: Failed to fetch stories (API v3): 404 Not Found - no such dialect''
                     @ ''; v2: Failed to fetch stories (API v2): 500 Internal Server Error - boom''))"
    by (simp add: message_or_String_def Error_def)
  with c f3 show ?thesis by blast
qed

text \<open>
  Claim C3. With a connection, when the v3 attempt throws (whatever it throws; a
  rejected \<^verbatim>\<open>fetch\<close> and a status outside 200 to 299 are such cases) and the remote
  answers the v2 request, sent next, with an ok response whose text parses to an
  object, \<^verbatim>\<open>getStories()\<close> throws nothing and returns the \<^verbatim>\<open>issues\<close> array of that
  object, or the empty array when the object has no \<^verbatim>\<open>issues\<close>; the two requests
  are all that was sent. When the remote answers the v3 request so, the result is
  the \<^verbatim>\<open>issues\<close> of the v3 response and the v2 request is not sent. Conversely,
  whatever \<^verbatim>\<open>getStories()\<close> returns is \<^verbatim>\<open>data.issues || []\<close> for the parsed text
  \<open>data\<close> of the ok response to the last request sent, a v3 or a v2 search.
\<close>

theorem v2_fallback_returns_issues:
  assumes "isConnected (client w)"
  shows "((fst (getStoriesV3 rt w) = Inl e3
           \<or> (case fetch_impl rt (net_log w) (stories_request ''3'' (client w)) of
                 Inl e \<Rightarrow> True | Inr response3 \<Rightarrow> \<not> resp_ok response3))
          \<and> fetch_impl rt (net_log w @ [stories_request ''3'' (client w)])
                (stories_request ''2'' (client w)) = Inr response
          \<and> resp_ok response \<and> resp_text response = Inr respText
          \<and> JSON_parse rt respText = Inr (Obj kvs)
          \<and> (map_of kvs ''issues'' = None \<or> (\<exists>xs. map_of kvs ''issues'' = Some (Arr xs)))
          \<longrightarrow>
          getStories rt w
            = (Inr (case map_of kvs ''issues'' of None \<Rightarrow> Arr [] | Some issues \<Rightarrow> issues),
               w\<lparr>net_log := net_log w @ [stories_request ''3'' (client w),
                                          stories_request ''2'' (client w)]\<rparr>))
       \<and> (fetch_impl rt (net_log w) (stories_request ''3'' (client w)) = Inr response
          \<and> resp_ok response \<and> resp_text response = Inr respText
          \<and> JSON_parse rt respText = Inr (Obj kvs)
          \<and> (map_of kvs ''issues'' = None \<or> (\<exists>xs. map_of kvs ''issues'' = Some (Arr xs)))
          \<longrightarrow>
          getStories rt w
            = (Inr (case map_of kvs ''issues'' of None \<Rightarrow> Arr [] | Some issues \<Rightarrow> issues),
               w\<lparr>net_log := net_log w @ [stories_request ''3'' (client w)]\<rparr>))
       \<and> (getStories rt w = (Inr stories, w') \<longrightarrow>
            (\<exists>response' respText' data issues.
               (last (net_log w') = stories_request ''3'' (client w)
                \<or> last (net_log w') = stories_request ''2'' (client w))
               \<and> fetch_impl rt (butlast (net_log w')) (last (net_log w')) = Inr response'
               \<and> resp_ok response' \<and> resp_text response' = Inr respText'
               \<and> JSON_parse rt respText' = Inr data
               \<and> get_prop data ''issues'' = Inr issues
               \<and> stories = (if truthy issues then issues else Arr [])))"
proof -
  let ?r3 = "stories_request ''3'' (client w)"
  let ?r2 = "stories_request ''2'' (client w)"
  let ?w1 = "w\<lparr>net_log := net_log w @ [?r3]\<rparr>"
  have w1: "snd (getStoriesV3 rt w) = ?w1"
    by (simp add: getStoriesV3_def getStoriesV_world)
  have w2: "snd (getStoriesV2 rt ?w1) = w\<lparr>net_log := net_log w @ [?r3, ?r2]\<rparr>"
    by (simp add: getStoriesV2_def getStoriesV_world)
  have a: "getStories rt w
            = (Inr (case map_of kvs ''issues'' of None \<Rightarrow> Arr [] | Some issues \<Rightarrow> issues),
               w\<lparr>net_log := net_log w @ [?r3, ?r2]\<rparr>)"
    if f3: "fst (getStoriesV3 rt w) = Inl e3
           \<or> (case fetch_impl rt (net_log w) ?r3 of
                 Inl e \<Rightarrow> True | Inr response3 \<Rightarrow> \<not> resp_ok response3)"
      and r: "fetch_impl rt (net_log w @ [?r3]) ?r2 = Inr response"
      and ok: "resp_ok response" and t: "resp_text response = Inr respText"
      and p: "JSON_parse rt respText = Inr (Obj kvs)"
      and i: "map_of kvs ''issues'' = None \<or> (\<exists>xs. map_of kvs ''issues'' = Some (Arr xs))"
  proof -
    from f3 obtain e where "fst (getStoriesV3 rt w) = Inl e"
      using getStoriesV_fails [of rt w "''3''"] by (auto simp: getStoriesV3_def)
    with w1 have v3: "getStoriesV3 rt w = (Inl e, ?w1)"
      by (simp add: prod_eq_iff)
    from r have r': "fetch_impl rt (net_log ?w1) (stories_request ''2'' (client ?w1)) = Inr response"
      by simp
    from getStoriesV_issues [OF r' ok t p i] w2
    have v2: "getStoriesV2 rt ?w1
              = (Inr (case map_of kvs ''issues'' of None \<Rightarrow> Arr [] | Some issues \<Rightarrow> issues),
                 w\<lparr>net_log := net_log w @ [?r3, ?r2]\<rparr>)"
      by (simp add: getStoriesV2_def prod_eq_iff)
    from assms v3 v2 show ?thesis
      by (simp add: getStories_connected)
  qed
  have b: "getStories rt w
            = (Inr (case map_of kvs ''issues'' of None \<Rightarrow> Arr [] | Some issues \<Rightarrow> issues), ?w1)"
    if r: "fetch_impl rt (net_log w) ?r3 = Inr response"
      and ok: "resp_ok response" and t: "resp_text response = Inr respText"
      and p: "JSON_parse rt respText = Inr (Obj kvs)"
      and i: "map_of kvs ''issues'' = None \<or> (\<exists>xs. map_of kvs ''issues'' = Some (Arr xs))"
  proof -
    from getStoriesV_issues [OF r ok t p i] w1
    have "getStoriesV3 rt w
          = (Inr (case map_of kvs ''issues'' of None \<Rightarrow> Arr [] | Some issues \<Rightarrow> issues), ?w1)"
      by (simp add: getStoriesV3_def prod_eq_iff)
    with assms show ?thesis
      by (simp add: getStories_connected)
  qed
  have c: "\<exists>response' respText' data issues.
               (last (net_log w') = ?r3 \<or> last (net_log w') = ?r2)
               \<and> fetch_impl rt (butlast (net_log w')) (last (net_log w')) = Inr response'
               \<and> resp_ok response' \<and> resp_text response' = Inr respText'
               \<and> JSON_parse rt respText' = Inr data
               \<and> get_prop data ''issues'' = Inr issues
               \<and> stories = (if truthy issues then issues else Arr [])"
    if g: "getStories rt w = (Inr stories, w')"
  proof (cases "fst (getStoriesV3 rt w)")
    case (Inr v)
    with w1 have v3: "getStoriesV3 rt w = (Inr v, ?w1)" by (simp add: prod_eq_iff)
    with g assms have eq: "stories = v" "w' = ?w1"
      by (simp_all add: getStories_connected)
    from Inr eq have "fst (getStoriesV ''3'' rt w) = Inr stories"
      by (simp add: getStoriesV3_def)
    from getStoriesV_returns [OF this] eq show ?thesis by auto
  next
    case (Inl e)
    with w1 have v3: "getStoriesV3 rt w = (Inl e, ?w1)" by (simp add: prod_eq_iff)
    show ?thesis
    proof (cases "fst (getStoriesV2 rt ?w1)")
      case (Inr v)
      with w2 have v2: "getStoriesV2 rt ?w1 = (Inr v, w\<lparr>net_log := net_log w @ [?r3, ?r2]\<rparr>)"
        by (simp add: prod_eq_iff)
      with g assms v3 have eq: "stories = v" "w' = w\<lparr>net_log := net_log w @ [?r3, ?r2]\<rparr>"
        by (simp_all add: getStories_connected)
      from Inr eq have "fst (getStoriesV ''2'' rt ?w1) = Inr stories"
        by (simp add: getStoriesV2_def)
      from getStoriesV_returns [OF this] eq show ?thesis
        by (auto simp: butlast_append)
    next
      case (Inl e2)
      with w2 have "getStoriesV2 rt ?w1 = (Inl e2, w\<lparr>net_log := net_log w @ [?r3, ?r2]\<rparr>)"
        by (simp add: prod_eq_iff)
      with g assms v3 show ?thesis
        by (simp add: getStories_connected)
    qed
  qed
  from a b c show ?thesis by blast
qed

theorem v2_fallback_returns_issues_witness:
  "isConnected (client connected_x)
   \<and> fetch_impl example_remote (net_log connected_x) (stories_request ''3'' (client connected_x))
       = Inr (text_response 404 ''Not Found'' ''no such dialect'' (Inl syntax_error))
   \<and> fst (getStoriesV3 example_remote connected_x)
       = Inl (Error ''Failed to fetch stories (API v3): 404 Not Found - no such dialect'')
   \<and> getStories example_remote connected_x
       = (Inr (Arr [Obj [(''key'', Str ''K-1''), (''id'', Str ''10001'')],
                    Obj [(''key'', Str ''K-2''), (''id'', Str ''10002'')]]),
          connected_x\<lparr>net_log := net_log connected_x
                                    @ [stories_request ''3'' (client connected_x),
                                       stories_request ''2'' (client connected_x)]\<rparr>)"
proof -
  let ?r3 = "stories_request ''3'' (client connected_x)"
  let ?r2 = "stories_request ''2'' (client connected_x)"
  let ?kvs = "[(''issues'', Arr [Obj [(''key'', Str ''K-1''), (''id'', Str ''10001'')],
                                 Obj [(''key'', Str ''K-2''), (''id'', Str ''10002'')]])]"
  let ?resp = "text_response 200 ''OK'' two_stories_text (Inr two_stories)"
  let ?e3 = "Error ''Failed to fetch stories (API v3): 404 Not Found - no such dialect''"
  have c: "isConnected (client connected_x)" by code_simp
  have f3: "fetch_impl example_remote (net_log connected_x) ?r3
            = Inr (text_response 404 ''Not Found'' ''no such dialect'' (Inl syntax_error))"
    by code_simp
  have n3: "\<not> resp_ok (text_response 404 ''Not Found'' ''no such dialect'' (Inl syntax_error))"
    by (simp add: text_response_def resp_ok_def)
  have g3: "fst (getStoriesV3 example_remote connected_x) = Inl ?e3"
    by code_simp
  from f3 n3 g3 have h3: "fst (getStoriesV3 example_remote connected_x) = Inl ?e3
      \<or> (case fetch_impl example_remote (net_log connected_x) ?r3 of
            Inl e \<Rightarrow> True | Inr response3 \<Rightarrow> \<not> resp_ok response3)"
    by simp
  have f2: "fetch_impl example_remote (net_log connected_x @ [?r3]) ?r2 = Inr ?resp"
    by code_simp
  have ok: "resp_ok ?resp" by (simp add: text_response_def resp_ok_def)
  have t: "resp_text ?resp = Inr two_stories_text" by (simp add: text_response_def)
  have p: "JSON_parse example_remote two_stories_text = Inr (Obj ?kvs)"
    by (simp add: example_remote_def two_stories_def)
  have i: "map_of ?kvs ''issues'' = None
           \<or> (\<exists>xs. map_of ?kvs ''issues'' = Some (Arr xs))"
    by simp
  from v2_fallback_returns_issues [OF c, of example_remote ?e3 ?resp two_stories_text ?kvs]
       h3 f2 ok t p i
  have "getStories example_remote connected_x
        = (Inr (case map_of ?kvs ''issues'' of None \<Rightarrow> Arr [] | Some issues \<Rightarrow> issues),
           connected_x\<lparr>net_log := net_log connected_x @ [?r3, ?r2]\<rparr>)"
    by blast
  with c f3 g3 show ?thesis by simp
qed

subsection \<open>The rich-text extractor\<close>

text \<open>
  Claim C6, as the code has it. On every document of the shape
  \<^verbatim>\<open>{ content?: [block] }\<close> the extractor throws nothing and returns the texts of
  the inline elements of the paragraph blocks that have a content array, in order,
  with a newline after each such paragraph, the whole trimmed. A block of another
  type and a paragraph without a content array contribute nothing; a document
  without \<^verbatim>\<open>content\<close> gives the empty string. The three examples of the
  specification evaluate to \<^verbatim>\<open>AB\<close>, the empty string and the empty string.
\<close>

theorem extractor_refines_spec:
  assumes "adf_document document"
  shows "extractTextFromADF document = Inr (extractPlainText_spec document)
       \<and> (content_array document = None \<longrightarrow> extractTextFromADF document = Inr [])
       \<and> extractTextFromADF
           (Obj [(''content'',
                  Arr [Obj [(''type'', Str ''paragraph''),
                            (''content'', Arr [Obj [(''text'', Str ''A'')],
                                               Obj [(''text'', Str ''B'')]])]])])
           = Inr ''AB''
       \<and> extractTextFromADF (Obj [(''content'', Arr [Obj [(''type'', Str ''other'')]])]) = Inr []
       \<and> extractTextFromADF (Obj []) = Inr []"
proof -
  from assms obtain kvs where kvs: "document = Obj kvs" by (cases document) simp_all
  have main: "extractTextFromADF document = Inr (extractPlainText_spec document)"
  proof (cases "content_array document")
    case None
    with assms kvs have "map_of kvs ''content'' = None"
      by (auto split: option.splits jsval.splits)
    with kvs None show ?thesis
      by (simp add: extractTextFromADF_def extractPlainText_spec_def and_then_def)
  next
    case (Some blocks)
    with assms kvs have "map_of kvs ''content'' = Some (Arr blocks)"
      and "list_all adf_block blocks"
      by (auto split: option.splits jsval.splits)
    with kvs Some show ?thesis
      by (simp add: extractTextFromADF_def extractPlainText_spec_def and_then_def
                    block_loop_spec)
  qed
  have none: "content_array document = None \<longrightarrow> extractTextFromADF document = Inr []"
    using main by (simp add: extractPlainText_spec_def trim_empty)
  have ex1: "extractTextFromADF
           (Obj [(''content'',
                  Arr [Obj [(''type'', Str ''paragraph''),
                            (''content'', Arr [Obj [(''text'', Str ''A'')],
                                               Obj [(''text'', Str ''B'')]])]])])
           = Inr ''AB''"
    by code_simp
  have ex2: "extractTextFromADF (Obj [(''content'', Arr [Obj [(''type'', Str ''other'')]])])
             = Inr []"
    by code_simp
  have ex3: "extractTextFromADF (Obj []) = Inr []"
    by code_simp
  from main none ex1 ex2 ex3 show ?thesis by simp
qed

theorem extractor_refines_spec_witness:
  "adf_document three_paragraphs
   \<and> extractTextFromADF three_paragraphs = Inr (extractPlainText_spec three_paragraphs)
   \<and> extractPlainText_spec three_paragraphs = ''A'' @ [CHR 0x0A, CHR 0x0A] @ ''B''"
proof -
  have h: "adf_document three_paragraphs" by code_simp
  have v: "extractPlainText_spec three_paragraphs = ''A'' @ [CHR 0x0A, CHR 0x0A] @ ''B''"
    by code_simp
  from extractor_refines_spec [OF h] h v show ?thesis by simp
qed

text \<open>
  Claim C6 as stated also says that a paragraph without inline text contributes
  nothing. A paragraph whose content array holds no text still contributes its
  newline: between two paragraphs of text it leaves an empty line that the final
  trim does not remove, so the document with it and the document without it give
  different results.
\<close>

theorem textless_paragraph_contributes_newline:
  "extractTextFromADF three_paragraphs = Inr (''A'' @ [CHR 0x0A, CHR 0x0A] @ ''B'')
   \<and> extractTextFromADF two_paragraphs = Inr (''A'' @ [CHR 0x0A] @ ''B'')
   \<and> extractTextFromADF three_paragraphs \<noteq> extractTextFromADF two_paragraphs"
proof -
  have a: "extractTextFromADF three_paragraphs = Inr (''A'' @ [CHR 0x0A, CHR 0x0A] @ ''B'')"
    by code_simp
  have b: "extractTextFromADF two_paragraphs = Inr (''A'' @ [CHR 0x0A] @ ''B'')"
    by code_simp
  from a b show ?thesis by simp
qed

subsection \<open>Story details\<close>

text \<open>
  Claim C7. When the \<^verbatim>\<open>description\<close> of the remote record is a plain string, the
  story detail carries that string unchanged. This holds of \<^verbatim>\<open>extractStoryDetails\<close>
  on the record, and of \<^verbatim>\<open>getStoryDetails\<close> when the record is the body of the ok
  response of the v3 request, or of the v2 request after a failed v3 attempt. The
  extractor is not what produced it: on a string the extractor gives the empty
  string.
\<close>

theorem string_description_verbatim:
  assumes "get_prop data ''fields'' = Inr flds"
    and "get_prop flds ''description'' = Inr (Str s)"
  shows "(\<exists>details. extractStoryDetails data = Inr details \<and> description details = Str s)
       \<and> extractTextFromADF (Str s) = Inr []
       \<and> (isConnected (client w)
            \<and> fetch_impl rt (net_log w) (details_request ''3'' issueKey (client w)) = Inr response
            \<and> resp_ok response \<and> resp_json response = Inr data \<longrightarrow>
            (\<exists>details. fst (getStoryDetails rt issueKey w) = Inr details
                        \<and> description details = Str s))
       \<and> (isConnected (client w)
            \<and> getStoryDetailsV3 rt issueKey w = (Inl e3, w1)
            \<and> fetch_impl rt (net_log w1) (details_request ''2'' issueKey (client w1)) = Inr response
            \<and> resp_ok response \<and> resp_json response = Inr data \<longrightarrow>
            (\<exists>details. fst (getStoryDetails rt issueKey w) = Inr details
                        \<and> description details = Str s))"
proof -
  from extractStoryDetails_string [OF assms] obtain details
    where x: "extractStoryDetails data = Inr details" and ds: "description details = Str s"
    by blast
  have a: "\<exists>details. extractStoryDetails data = Inr details \<and> description details = Str s"
    using x ds by blast
  have b: "extractTextFromADF (Str s) = Inr []"
    by (simp add: extractTextFromADF_def and_then_def trim_empty)
  have c: "fst (getStoryDetails rt issueKey w) = Inr details"
    if "isConnected (client w)"
      and "fetch_impl rt (net_log w) (details_request ''3'' issueKey (client w)) = Inr response"
      and "resp_ok response" and "resp_json response = Inr data"
  proof -
    from getStoryDetailsV_ok [OF that(2-4)] x
    have "fst (getStoryDetailsV3 rt issueKey w) = Inr details"
      by (simp add: getStoryDetailsV3_def)
    with that(1) show ?thesis
      by (cases "getStoryDetailsV3 rt issueKey w") (simp add: getStoryDetails_connected)
  qed
  have d: "fst (getStoryDetails rt issueKey w) = Inr details"
    if "isConnected (client w)"
      and "getStoryDetailsV3 rt issueKey w = (Inl e3, w1)"
      and "fetch_impl rt (net_log w1) (details_request ''2'' issueKey (client w1)) = Inr response"
      and "resp_ok response" and "resp_json response = Inr data"
  proof -
    from getStoryDetailsV_ok [OF that(3-5)] x
    have "fst (getStoryDetailsV2 rt issueKey w1) = Inr details"
      by (simp add: getStoryDetailsV2_def)
    with that(1,2) show ?thesis
      by (cases "getStoryDetailsV2 rt issueKey w1") (simp add: getStoryDetails_connected)
  qed
  from a b c d ds show ?thesis by blast
qed

theorem string_description_verbatim_witness:
  "get_prop story_record ''fields''
     = Inr (Obj [(''summary'', Str ''Login''),
                 (''description'', Str '' As a user I log in ''),
                 (''customfield_10046'', rich_text [para [text_node ''Given a user'']])])
   \<and> (\<exists>details. extractStoryDetails story_record = Inr details
                  \<and> description details = Str '' As a user I log in '')
   \<and> (\<exists>details. fst (getStoryDetails example_remote ''K-1'' connected_x) = Inr details
                  \<and> description details = Str '' As a user I log in '')"
proof -
  let ?fields = "Obj [(''summary'', Str ''Login''),
                      (''description'', Str '' As a user I log in ''),
                      (''customfield_10046'', rich_text [para [text_node ''Given a user'']])]"
  let ?w1 = "snd (getStoryDetailsV3 example_remote ''K-1'' connected_x)"
  let ?resp = "text_response 200 ''OK'' [] (Inr story_record)"
  have h1: "get_prop story_record ''fields'' = Inr ?fields"
    by (simp add: story_record_def)
  have h2: "get_prop ?fields ''description'' = Inr (Str '' As a user I log in '')"
    by simp
  have c: "isConnected (client connected_x)" by code_simp
  have f3: "fst (getStoryDetailsV3 example_remote ''K-1'' connected_x)
            = Inl (Error ''Failed to fetch story details (API v3): 404 Not Found - no such dialect'')"
    by code_simp
  have v3: "getStoryDetailsV3 example_remote ''K-1'' connected_x
            = (Inl (Error ''Failed to fetch story details (API v3): 404 Not Found - no such dialect''), ?w1)"
    using f3 by (simp add: prod_eq_iff)
  have r: "fetch_impl example_remote (net_log ?w1) (details_request ''2'' ''K-1'' (client ?w1))
           = Inr ?resp"
    by code_simp
  have ok: "resp_ok ?resp" by (simp add: text_response_def resp_ok_def)
  have js: "resp_json ?resp = Inr story_record" by (simp add: text_response_def)
  from string_description_verbatim [OF h1 h2, of connected_x example_remote "''K-1''" ?resp _ ?w1]
       c v3 r ok js h1
  show ?thesis by blast
qed

text \<open>
  Claim C8 says that a rich-text value in either remote field comes out as its plain
  text. On a record whose \<^verbatim>\<open>description\<close> and \<^verbatim>\<open>customfield_10046\<close> are both
  rich-text documents, the description comes out as the extracted text, while
  \<^verbatim>\<open>acceptanceCriteria\<close> is the document itself, an object, although the extractor
  gives \<^verbatim>\<open>Given a cart\<close> on it. The same through \<^verbatim>\<open>getStoryDetails\<close>.
\<close>

theorem acceptance_criteria_not_extracted:
  "extractStoryDetails rich_story_record
     = Inr \<lparr>key = Str ''K-2'', title = Str ''Checkout'', description = Str ''As a buyer I pay'',
            acceptanceCriteria = rich_text [para [text_node ''Given a cart'']]\<rparr>
   \<and> fst (getStoryDetails example_remote ''K-2'' connected_x)
       = Inr \<lparr>key = Str ''K-2'', title = Str ''Checkout'', description = Str ''As a buyer I pay'',
              acceptanceCriteria = rich_text [para [text_node ''Given a cart'']]\<rparr>
   \<and> extractTextFromADF (rich_text [para [text_node ''Given a cart'']]) = Inr ''Given a cart''
   \<and> typeof (rich_text [para [text_node ''Given a cart'']]) = ''object''"
proof -
  have a: "extractStoryDetails rich_story_record
     = Inr \<lparr>key = Str ''K-2'', title = Str ''Checkout'', description = Str ''As a buyer I pay'',
            acceptanceCriteria = rich_text [para [text_node ''Given a cart'']]\<rparr>"
    by code_simp
  have b: "fst (getStoryDetails example_remote ''K-2'' connected_x)
       = Inr \<lparr>key = Str ''K-2'', title = Str ''Checkout'', description = Str ''As a buyer I pay'',
              acceptanceCriteria = rich_text [para [text_node ''Given a cart'']]\<rparr>"
    by code_simp
  have c: "extractTextFromADF (rich_text [para [text_node ''Given a cart'']]) = Inr ''Given a cart''"
    by code_simp
  have d: "typeof (rich_text [para [text_node ''Given a cart'']]) = ''object''"
    by (simp add: rich_text_def)
  from a b c d show ?thesis by simp
qed

subsection \<open>The session store\<close>

text \<open>
  Claim C4. When the identity probe fails, by a rejected \<^verbatim>\<open>fetch\<close> (a transport
  error) or by a response outside 200 to 299, \<^verbatim>\<open>connect\<close> returns false and does
  not throw; afterwards \<^verbatim>\<open>isConnectedToJira()\<close> is false and
  \<^verbatim>\<open>getConnectionInfo()\<close> is null. The probe is the request built from the
  arguments of the call.
\<close>

theorem connect_probe_failure:
  assumes "case fetch_impl rt (net_log w)
                  (probe_request ((client w)\<lparr>baseUrl := remove_trailing_slash url,
                                              email := em, apiToken := tok\<rparr>)) of
             Inl e \<Rightarrow> True
           | Inr response \<Rightarrow> \<not> resp_ok response"
  shows "\<exists>w'. connect rt url em tok w = (Inr False, w')
              \<and> \<not> isConnectedToJira (client w')
              \<and> getConnectionInfo (client w') = None"
  using assms
  by (auto simp: connect_result Let_def isConnectedToJira_def getConnectionInfo_def
           split: sum.splits)

theorem connect_probe_failure_witness:
  "isConnected (client connected_x)
   \<and> fst (connect unreachable_remote ''https://x.example/'' ''a@x.example'' ''s3cret'' connected_x)
       = Inr False
   \<and> getConnectionInfo (client (snd (connect unreachable_remote ''https://x.example/''
                                        ''a@x.example'' ''s3cret'' connected_x))) = None
   \<and> fst (connect example_remote ''https://nowhere.example'' ''b'' ''c'' initial_world) = Inr False
   \<and> \<not> isConnectedToJira (client (snd (connect example_remote ''https://nowhere.example''
                                             ''b'' ''c'' initial_world)))"
proof -
  have c: "isConnected (client connected_x)"
    by (simp add: connected_x_def connect_result Let_def example_remote_def probe_request_def
                  remove_trailing_slash_def text_response_def resp_ok_def)
  have h1: "case fetch_impl unreachable_remote (net_log connected_x)
                   (probe_request ((client connected_x)
                      \<lparr>baseUrl := remove_trailing_slash ''https://x.example/'',
                       email := ''a@x.example'', apiToken := ''s3cret''\<rparr>)) of
              Inl e \<Rightarrow> True
            | Inr response \<Rightarrow> \<not> resp_ok response"
    by (simp add: unreachable_remote_def)
  have h2: "case fetch_impl example_remote (net_log initial_world)
                   (probe_request ((client initial_world)
                      \<lparr>baseUrl := remove_trailing_slash ''https://nowhere.example'',
                       email := ''b'', apiToken := ''c''\<rparr>)) of
              Inl e \<Rightarrow> True
            | Inr response \<Rightarrow> \<not> resp_ok response"
    by (simp add: example_remote_def probe_request_def remove_trailing_slash_def
                  text_response_def resp_ok_def)
  from connect_probe_failure [OF h1] connect_probe_failure [OF h2] c
  show ?thesis by auto
qed

text \<open>
  Claim C5. After \<^verbatim>\<open>connect(url, id, secret)\<close> has returned true,
  \<^verbatim>\<open>getConnectionInfo()\<close> is the object of the base URL with one trailing slash
  removed and the identity. The object has no third property, and it is the same
  whatever secret the successful call was given. One slash at the end is removed
  and nothing else, so \<^verbatim>\<open>https://x.example/\<close> and \<^verbatim>\<open>https://x.example\<close> are stored
  as the same base URL.
\<close>

theorem connection_info_after_connect:
  assumes "connect rt url ident secret w = (Inr True, w')"
  shows "getConnectionInfo (client w')
           = Some \<lparr>info_baseUrl = remove_trailing_slash url, info_email = ident\<rparr>
       \<and> (\<forall>secret2 w2 w2'. connect rt2 url ident secret2 w2 = (Inr True, w2')
             \<longrightarrow> getConnectionInfo (client w2') = getConnectionInfo (client w'))
       \<and> remove_trailing_slash (u @ ''/'') = u
       \<and> (u = [] \<or> last u \<noteq> CHR ''/'' \<longrightarrow> remove_trailing_slash u = u)
       \<and> remove_trailing_slash ''https://x.example/'' = ''https://x.example''
       \<and> remove_trailing_slash ''https://x.example'' = ''https://x.example''"
proof -
  have a: "getConnectionInfo (client w')
           = Some \<lparr>info_baseUrl = remove_trailing_slash url, info_email = ident\<rparr>"
    using assms by (auto simp: connect_result Let_def getConnectionInfo_def)
  have b: "getConnectionInfo (client w2')
           = Some \<lparr>info_baseUrl = remove_trailing_slash url, info_email = ident\<rparr>"
    if "connect rt2 url ident secret2 w2 = (Inr True, w2')" for secret2 w2 w2'
    using that by (auto simp: connect_result Let_def getConnectionInfo_def)
  have c: "remove_trailing_slash (u @ ''/'') = u"
    by (simp add: remove_trailing_slash_def)
  have d: "u = [] \<or> last u \<noteq> CHR ''/'' \<longrightarrow> remove_trailing_slash u = u"
    by (auto simp: remove_trailing_slash_def)
  have e: "remove_trailing_slash ''https://x.example/'' = ''https://x.example''"
    "remove_trailing_slash ''https://x.example'' = ''https://x.example''"
    by (simp_all add: remove_trailing_slash_def)
  from a b c d e show ?thesis by simp
qed

theorem connection_info_after_connect_witness:
  "connect example_remote ''https://x.example/'' ''a@x.example'' ''s3cret'' initial_world
     = (Inr True, connected_x)
   \<and> getConnectionInfo (client connected_x)
       = Some \<lparr>info_baseUrl = ''https://x.example'', info_email = ''a@x.example''\<rparr>
   \<and> remove_trailing_slash ''https://x.example//'' = ''https://x.example/''"
proof -
  have h: "connect example_remote ''https://x.example/'' ''a@x.example'' ''s3cret'' initial_world
             = (Inr True, connected_x)"
    by (simp add: connected_x_def connect_result Let_def example_remote_def probe_request_def
                  remove_trailing_slash_def text_response_def resp_ok_def)
  have n: "remove_trailing_slash ''https://x.example/'' = ''https://x.example''"
    by (simp add: remove_trailing_slash_def)
  from connection_info_after_connect [OF h, of example_remote "''https://x.example/''"] n
  show ?thesis using h by simp
qed

text \<open>
  Claim C10. Whatever the probe answers, after \<^verbatim>\<open>connect(baseUrl, email, apiToken)\<close>
  the stored base URL (normalised), email and token are those of the call, and the
  probe request that was sent was already built from them. Only the connected flag
  follows the outcome: it is true exactly when the call returned true, and otherwise
  \<^verbatim>\<open>getConnectionInfo()\<close> is null although the fields were replaced.
\<close>

theorem connect_overwrites_credentials:
  "baseUrl (client (snd (connect rt url em tok w))) = remove_trailing_slash url
   \<and> email (client (snd (connect rt url em tok w))) = em
   \<and> apiToken (client (snd (connect rt url em tok w))) = tok
   \<and> net_log (snd (connect rt url em tok w))
       = net_log w @ [\<lparr>req_method = ''GET'',
                        req_url = remove_trailing_slash url @ ''/rest/api/3/myself'',
                        req_headers =
                          [(''Authorization'', ''Basic '' @ base64 (em @ '':'' @ tok)),
                           (''Accept'', ''application/json''),
                           (''Content-Type'', ''application/json'')],
                        req_body = None\<rparr>]
   \<and> isConnected (client (snd (connect rt url em tok w)))
       = (fst (connect rt url em tok w) = Inr True)
   \<and> getConnectionInfo (client (snd (connect rt url em tok w)))
       = (if fst (connect rt url em tok w) = Inr True
          then Some \<lparr>info_baseUrl = remove_trailing_slash url, info_email = em\<rparr>
          else None)"
  by (simp add: connect_result Let_def getConnectionInfo_def probe_request_def
                getAuthHeaders_def)

theorem connect_overwrites_credentials_example:
  "client connected_x
     = \<lparr>baseUrl = ''https://x.example'', email = ''a@x.example'', apiToken = ''s3cret'',
        isConnected = True\<rparr>
   \<and> fst (connect example_remote ''https://nowhere.example/'' ''b'' ''c'' connected_x) = Inr False
   \<and> client (snd (connect example_remote ''https://nowhere.example/'' ''b'' ''c'' connected_x))
       = \<lparr>baseUrl = ''https://nowhere.example'', email = ''b'', apiToken = ''c'',
          isConnected = False\<rparr>
   \<and> getConnectionInfo
         (client (snd (connect example_remote ''https://nowhere.example/'' ''b'' ''c'' connected_x)))
       = None"
proof -
  let ?r = "connect example_remote ''https://nowhere.example/'' ''b'' ''c'' connected_x"
  have a: "client connected_x
     = \<lparr>baseUrl = ''https://x.example'', email = ''a@x.example'', apiToken = ''s3cret'',
        isConnected = True\<rparr>"
    by (simp add: connected_x_def connect_result Let_def example_remote_def probe_request_def
                  remove_trailing_slash_def text_response_def resp_ok_def initial_world_def
                  new_JiraClient_def)
  have f: "fst ?r = Inr False"
    by (simp add: connect_result Let_def example_remote_def probe_request_def
                  remove_trailing_slash_def text_response_def resp_ok_def)
  have n: "remove_trailing_slash ''https://nowhere.example/'' = ''https://nowhere.example''"
    by (simp add: remove_trailing_slash_def)
  have eq: "c = \<lparr>baseUrl = baseUrl c, email = email c, apiToken = apiToken c,
                  isConnected = isConnected c\<rparr>" for c :: JiraClient
    by simp
  from connect_overwrites_credentials
         [of example_remote "''https://nowhere.example/''" "''b''" "''c''" connected_x] f n
  have "baseUrl (client (snd ?r)) = ''https://nowhere.example''"
    "email (client (snd ?r)) = ''b''" "apiToken (client (snd ?r)) = ''c''"
    "isConnected (client (snd ?r)) = False"
    "getConnectionInfo (client (snd ?r)) = None"
    by simp_all
  with a f eq [of "client (snd ?r)"] show ?thesis by simp
qed





end
